theory Spec2Isabelle
  imports Complex_Main
begin

section \<open>Data model of the habit tracker (src/app/page.tsx)\<close>

text \<open>
  The source file holds the page twice, an earlier and a later, commented version. The
  handlers of the two agree; the embedding follows the later one, which also has the
  reminders.

  The page keeps everything in React state hooks of the \<open>Page\<close> component. The embedding
  turns the hooks into one record and every handler into a function on that record. A
  handler reads the state of the render it was created in; the embedding runs every event
  on the current state, one event after the other.

  A TypeScript \<open>number\<close> is modelled as a real. The handlers only compare, copy and
  count these values; the values that reach the state come from a range input
  (\<open>parseFloat\<close> of a slider position) or from \<open>parseFloat(..) || 0\<close> in the goal
  editor, so they are never NaN and the order on them is the order of the reals.
\<close>

type_synonym number = real

text \<open>\<open>interface DataPoint { day: string; value: number }\<close>; the field \<open>value\<close> is
  written \<open>val\<close>.\<close>

record DataPoint =
  day :: string
  val :: number

text \<open>\<open>interface HabitData\<close>; the field \<open>id\<close> is written \<open>ident\<close>, and the icon (a
  React node) is kept as the name of its component.\<close>

record HabitData =
  ident :: string
  name :: string
  icon :: string
  unit :: string
  color :: string
  goal :: number
  current :: number
  data :: "DataPoint list"

text \<open>A JavaScript \<open>Date\<close> read through its local calendar getters: \<open>getMonth\<close> is
  0-based, \<open>getDate\<close> is the day of the month; \<open>getTimeOfDay\<close> is what is left of
  the time stamp, in milliseconds after local midnight.\<close>

record JSDate =
  getFullYear :: int
  getMonth :: int
  getDate :: int
  getTimeOfDay :: nat

text \<open>The state hooks of \<open>Page\<close>. \<open>timeouts\<close> counts the pending callbacks
  \<open>setTimeout(() => setNotification(null), 3000)\<close>: every notification the code shows
  schedules one.\<close>

record AppState =
  activeTab :: string
  streak :: nat
  lastCheckin :: "JSDate option"
  todayComplete :: bool
  notification :: "string option"
  reminders :: "string list"
  habits :: "HabitData list"
  timeouts :: nat

datatype error = TypeError

section \<open>Notifications\<close>

text \<open>\<open>setNotification(msg); setTimeout(() => setNotification(null), 3000);\<close>\<close>

definition notify :: "string \<Rightarrow> AppState \<Rightarrow> AppState" where
  "notify msg s = s\<lparr>notification := Some msg, timeouts := Suc (timeouts s)\<rparr>"

text \<open>The scheduled callback \<open>() => setNotification(null)\<close>.\<close>

definition clearNotification :: "AppState \<Rightarrow> AppState" where
  "clearNotification s = s\<lparr>notification := None, timeouts := timeouts s - 1\<rparr>"

text \<open>What a handler run from \<open>s\<close> to \<open>s'\<close> did to the notification slot: it showed
  \<open>msg\<close> (and scheduled its clearing), or it left the slot and the timers alone.\<close>

definition emits :: "AppState \<Rightarrow> AppState \<Rightarrow> string \<Rightarrow> bool" where
  "emits s s' msg = (notification s' = Some msg \<and> timeouts s' = Suc (timeouts s))"

definition silent :: "AppState \<Rightarrow> AppState \<Rightarrow> bool" where
  "silent s s' = (notification s' = notification s \<and> timeouts s' = timeouts s)"

section \<open>Derived values\<close>

text \<open>Today's Summary in \<open>Page\<close>: the badge of one habit.\<close>

definition Page_goalMet :: "HabitData \<Rightarrow> bool" where
  "Page_goalMet habit =
     (if ident habit = ''screen'' then current habit \<le> goal habit
      else current habit \<ge> goal habit)"

text \<open>\<open>OverallProgress\<close>: the status icon of one habit.\<close>

definition OverallProgress_isComplete :: "HabitData \<Rightarrow> bool" where
  "OverallProgress_isComplete habit =
     (if ident habit = ''screen'' then current habit \<le> goal habit
      else current habit \<ge> goal habit)"

text \<open>\<open>HabitSlider\<close>.\<close>

definition HabitSlider_isReversed :: "HabitData \<Rightarrow> bool" where
  "HabitSlider_isReversed habit = (ident habit = ''screen'')"

definition HabitSlider_isOnTarget :: "HabitData \<Rightarrow> bool" where
  "HabitSlider_isOnTarget habit =
     (if HabitSlider_isReversed habit then current habit \<le> goal habit
      else current habit \<ge> goal habit)"

text \<open>\<open>Math.round\<close>: the nearest integer, a tie going up.\<close>

definition Math_round :: "real \<Rightarrow> int" where
  "Math_round x = \<lfloor>x + 1 / 2\<rfloor>"

text \<open>\<open>OverallProgress\<close>: \<open>habits.filter(..).length\<close> and the percentage. \<open>None\<close> is the
  NaN that \<open>0 / 0\<close> gives for an empty list.\<close>

definition OverallProgress_completedHabits :: "HabitData list \<Rightarrow> nat" where
  "OverallProgress_completedHabits hs =
     length (filter (\<lambda>h. if ident h = ''screen'' then current h \<le> goal h
                          else current h \<ge> goal h) hs)"

definition OverallProgress_percentage :: "HabitData list \<Rightarrow> int option" where
  "OverallProgress_percentage hs =
     (if length hs = 0 then None
      else Some (Math_round
        ((real (OverallProgress_completedHabits hs) / real (length hs)) * 100)))"

text \<open>The Overall Progress bar under Today's Summary in \<open>Page\<close>.\<close>

definition Page_completedHabits :: "HabitData list \<Rightarrow> nat" where
  "Page_completedHabits hs =
     length (filter (\<lambda>h. if ident h = ''screen'' then current h \<le> goal h
                          else current h \<ge> goal h) hs)"

definition Page_completionPercentage :: "HabitData list \<Rightarrow> int option" where
  "Page_completionPercentage hs =
     (let completedHabits = Page_completedHabits hs; totalHabits = length hs
      in if totalHabits = 0 then None
         else Some (Math_round ((real completedHabits / real totalHabits) * 100)))"

section \<open>Event handlers\<close>

text \<open>The text of the goal notification. The template string starts with four
  non-ASCII characters (a party popper read in the wrong encoding), written here as the
  bytes the file holds for them.\<close>

definition goalAchievedPrefix :: string where
  "goalAchievedPrefix =
     [CHR 0xEF, CHR 0xA3, CHR 0xBF, CHR 0xC3, CHR 0xBC, CHR 0xC3, CHR 0xA9, CHR 0xC3, CHR 0xA2]"

definition goalAchievedText :: "HabitData \<Rightarrow> string" where
  "goalAchievedText h = goalAchievedPrefix @ '' Goal achieved for '' @ name h @ ''!''"

text \<open>The object the updater of \<open>handleHabitChange\<close> builds for the matching habit.
  \<open>habit.data[habit.data.length - 1]\<close> is \<open>undefined\<close> on an empty array, and reading
  \<open>.day\<close> from it throws.\<close>

definition updateToday :: "number \<Rightarrow> HabitData \<Rightarrow> error + HabitData" where
  "updateToday v habit =
     (if data habit = [] then Inl TypeError
      else Inr (habit\<lparr>current := v,
                  data := butlast (data habit) @ [\<lparr>day = day (last (data habit)), val = v\<rparr>]\<rparr>))"

text \<open>\<open>prevHabits.map(f)\<close> for an \<open>f\<close> that may throw.\<close>

fun mapHabits :: "(HabitData \<Rightarrow> error + HabitData) \<Rightarrow> HabitData list \<Rightarrow> error + HabitData list" where
  "mapHabits f [] = Inr []"
| "mapHabits f (h # hs) =
     (case f h of
        Inl e \<Rightarrow> Inl e
      | Inr h' \<Rightarrow> (case mapHabits f hs of Inl e \<Rightarrow> Inl e | Inr hs' \<Rightarrow> Inr (h' # hs')))"

definition handleHabitChange :: "string \<Rightarrow> number \<Rightarrow> AppState \<Rightarrow> error + AppState" where
  "handleHabitChange i v s =
     (let s1 =
        (case find (\<lambda>h. ident h = i) (habits s) of
           None \<Rightarrow> s
         | Some habitBeingModified \<Rightarrow>
             (let goalMet =
                    (if ident habitBeingModified = ''screen'' then v \<le> goal habitBeingModified
                     else v \<ge> goal habitBeingModified);
                  wasAlreadyAchieved =
                    (if ident habitBeingModified = ''screen''
                     then current habitBeingModified \<le> goal habitBeingModified
                     else current habitBeingModified \<ge> goal habitBeingModified)
              in if goalMet \<and> \<not> wasAlreadyAchieved
                 then notify (goalAchievedText habitBeingModified) s else s))
      in case mapHabits (\<lambda>habit. if ident habit = i then updateToday v habit else Inr habit)
                (habits s1) of
           Inl e \<Rightarrow> Inl e
         | Inr hs \<Rightarrow> Inr (s1\<lparr>habits := hs\<rparr>))"

text \<open>\<open>habits.find(h => h.id === id)?.name\<close> inside a template string prints
  \<open>undefined\<close> when no habit has the id.\<close>

definition updateHabitGoal :: "string \<Rightarrow> number \<Rightarrow> AppState \<Rightarrow> AppState" where
  "updateHabitGoal i g s =
     (let habitName = (case find (\<lambda>h. ident h = i) (habits s) of
                         None \<Rightarrow> ''undefined'' | Some h \<Rightarrow> name h)
      in notify (''Goal updated for '' @ habitName)
           (s\<lparr>habits := map (\<lambda>habit. if ident habit = i then habit\<lparr>goal := g\<rparr> else habit)
                          (habits s)\<rparr>))"

text \<open>\<open>now\<close> is the \<open>new Date()\<close> the handler reads.\<close>

definition handleCheckIn :: "JSDate \<Rightarrow> AppState \<Rightarrow> AppState" where
  "handleCheckIn now s =
     (if \<not> todayComplete s
      then notify ''Daily check-in complete! Streak increased.''
             (s\<lparr>lastCheckin := Some now, todayComplete := True, streak := streak s + 1\<rparr>)
      else s)"

section \<open>Periodic checks\<close>

definition checkNewDay :: "JSDate \<Rightarrow> AppState \<Rightarrow> AppState" where
  "checkNewDay now s =
     (case lastCheckin s of
        None \<Rightarrow> s
      | Some lastCheckedDate \<Rightarrow>
          (let isNewDay =
                 (getDate now \<noteq> getDate lastCheckedDate \<or>
                  getMonth now \<noteq> getMonth lastCheckedDate \<or>
                  getFullYear now \<noteq> getFullYear lastCheckedDate)
           in if isNewDay then
                (let s1 = s\<lparr>todayComplete := False\<rparr>;
                     dayDifference = getDate now - getDate lastCheckedDate;
                     isMonthChange = (getMonth now \<noteq> getMonth lastCheckedDate);
                     isYearChange = (getFullYear now \<noteq> getFullYear lastCheckedDate);
                     missedDay = (dayDifference > 1 \<or> isMonthChange \<or> isYearChange)
                 in if missedDay
                    then notify ''You missed a day! Streak reset.'' (s1\<lparr>streak := 0\<rparr>)
                    else s1)
              else s))"

text \<open>\<open>String.prototype.toLowerCase\<close> on ASCII text (the habit names are ASCII).\<close>

definition toLowerChar :: "char \<Rightarrow> char" where
  "toLowerChar c =
     (let n = (of_char c :: nat) in if 65 \<le> n \<and> n \<le> 90 then char_of (n + 32) else c)"

definition toLowerCase :: "string \<Rightarrow> string" where
  "toLowerCase s = map toLowerChar s"

definition reminderText :: "HabitData \<Rightarrow> string" where
  "reminderText habit =
     ''Don't forget to '' @ (if ident habit = ''screen'' then ''limit'' else ''complete'')
       @ '' your '' @ toLowerCase (name habit) @ '' goal!''"

definition checkMissedHabits :: "AppState \<Rightarrow> AppState" where
  "checkMissedHabits s =
     (let missedHabits =
            filter (\<lambda>habit. if ident habit = ''screen'' then current habit > goal habit
                            else current habit < goal habit) (habits s)
      in if length missedHabits > 0
         then s\<lparr>reminders := map reminderText missedHabits\<rparr>
         else s\<lparr>reminders := []\<rparr>)"

section \<open>Initial state\<close>

text \<open>\<open>pastWeekDays.map((day, index) => ({ day, value: [..][index] }))\<close> for the seven
  labels \<open>getDates()\<close> returns.\<close>

definition weekSeries :: "string list \<Rightarrow> number list \<Rightarrow> DataPoint list" where
  "weekSeries pastWeekDays vs = map (\<lambda>(d, v). \<lparr>day = d, val = v\<rparr>) (zip pastWeekDays vs)"

definition initialHabits :: "string list \<Rightarrow> HabitData list" where
  "initialHabits pastWeekDays =
     [\<lparr>ident = ''sleep'', name = ''Sleep'', icon = ''Moon'', unit = ''hours'',
       color = ''#4f46e5'', goal = 8, current = 7,
       data = weekSeries pastWeekDays [7.5, 6.5, 8, 7, 6, 8.5, 7.5]\<rparr>,
      \<lparr>ident = ''water'', name = ''Water'', icon = ''Droplets'', unit = ''liters'',
       color = ''#0ea5e9'', goal = 3, current = 2.5,
       data = weekSeries pastWeekDays [1.8, 2.5, 3.2, 2.7, 1.5, 2.2, 2.8]\<rparr>,
      \<lparr>ident = ''screen'', name = ''Screen Time'', icon = ''Monitor'', unit = ''hours'',
       color = ''#ef4444'', goal = 4, current = 4.5,
       data = weekSeries pastWeekDays [5.5, 4.2, 6.1, 3.5, 7.2, 4.8, 3.9]\<rparr>,
      \<lparr>ident = ''exercise'', name = ''Exercise'', icon = ''Activity'', unit = ''minutes'',
       color = ''#10b981'', goal = 30, current = 25,
       data = weekSeries pastWeekDays [45, 0, 30, 60, 20, 0, 25]\<rparr>,
      \<lparr>ident = ''meditation'', name = ''Meditation'', icon = ''Zap'', unit = ''minutes'',
       color = ''#8b5cf6'', goal = 15, current = 10,
       data = weekSeries pastWeekDays [10, 15, 5, 20, 10, 15, 10]\<rparr>,
      \<lparr>ident = ''coffee'', name = ''Coffee'', icon = ''Coffee'', unit = ''cups'',
       color = ''#d97706'', goal = 2, current = 3,
       data = weekSeries pastWeekDays [2, 3, 2, 4, 1, 3, 3]\<rparr>]"

text \<open>The \<open>useState\<close> initialisers; \<open>now\<close> is the \<open>new Date()\<close> of the first render.\<close>

definition initialState :: "JSDate \<Rightarrow> string list \<Rightarrow> AppState" where
  "initialState now pastWeekDays =
     \<lparr>activeTab = ''dashboard'', streak = 3, lastCheckin = Some now, todayComplete = False,
      notification = None, reminders = [], habits = initialHabits pastWeekDays,
      timeouts = 0\<rparr>"

text \<open>A week of labels and a date, for the worked examples.\<close>

definition someWeek :: "string list" where
  "someWeek = [''Tue'', ''Wed'', ''Thu'', ''Fri'', ''Sat'', ''Sun'', ''Mon'']"

definition someDate :: JSDate where
  "someDate = \<lparr>getFullYear = 2025, getMonth = 4, getDate = 12, getTimeOfDay = 34200000\<rparr>"

definition twoDaysEarlier :: JSDate where
  "twoDaysEarlier = \<lparr>getFullYear = 2025, getMonth = 4, getDate = 10, getTimeOfDay = 79200000\<rparr>"

text \<open>The initial state cut down to its screen-time habit.\<close>

definition screenOnly :: AppState where
  "screenOnly = (initialState someDate someWeek)\<lparr>habits := [initialHabits someWeek ! 2]\<rparr>"

section \<open>The events of a session\<close>

datatype event =
    HabitChange string number
  | GoalUpdate string number
  | CheckIn JSDate
  | NewDayTick JSDate
  | MissedHabitsTick
  | NotificationTimeout
  | SetActiveTab string

fun step :: "event \<Rightarrow> AppState \<Rightarrow> error + AppState" where
  "step (HabitChange i v) s = handleHabitChange i v s"
| "step (GoalUpdate i g) s = Inr (updateHabitGoal i g s)"
| "step (CheckIn now) s = Inr (handleCheckIn now s)"
| "step (NewDayTick now) s = Inr (checkNewDay now s)"
| "step MissedHabitsTick s = Inr (checkMissedHabits s)"
| "step NotificationTimeout s = Inr (if timeouts s = 0 then s else clearNotification s)"
| "step (SetActiveTab t) s = Inr (s\<lparr>activeTab := t\<rparr>)"

section \<open>The direction rule of the specification\<close>

text \<open>The rule as the specification words it: for \<open>screen\<close> the goal is achieved when
  \<open>current \<le> goal\<close>, for every other id when \<open>current \<ge> goal\<close>.\<close>

definition spec_achieved :: "HabitData \<Rightarrow> bool" where
  "spec_achieved h = (if ident h = ''screen'' then current h \<le> goal h else goal h \<le> current h)"

text \<open>The percentage as the specification words it:
  \<open>round(100 \<times> completedCount / totalHabitCount)\<close>.\<close>

definition spec_percentage :: "HabitData list \<Rightarrow> int" where
  "spec_percentage hs = round (100 * real (length (filter spec_achieved hs)) / real (length hs))"

section \<open>The calendar of the specification\<close>

text \<open>The specification speaks of the gap in calendar days between the last check-in
  and now; the code never computes it. It is the difference of the day numbers of the two
  dates in the Gregorian calendar (months counted from 0, as \<open>getMonth\<close> does).\<close>

definition isLeapYear :: "int \<Rightarrow> bool" where
  "isLeapYear y = (y mod 4 = 0 \<and> (y mod 100 \<noteq> 0 \<or> y mod 400 = 0))"

definition daysInMonth :: "int \<Rightarrow> int \<Rightarrow> int" where
  "daysInMonth y m =
     (if m = 1 then (if isLeapYear y then 29 else 28)
      else if m = 3 \<or> m = 5 \<or> m = 8 \<or> m = 10 then 30 else 31)"

definition daysBeforeYear :: "int \<Rightarrow> int" where
  "daysBeforeYear y = 365 * y + (y - 1) div 4 - (y - 1) div 100 + (y - 1) div 400"

definition daysBeforeMonth :: "int \<Rightarrow> int \<Rightarrow> int" where
  "daysBeforeMonth y m = sum_list (map (daysInMonth y) [0..m - 1])"

definition dayNumber :: "JSDate \<Rightarrow> int" where
  "dayNumber d =
     daysBeforeYear (getFullYear d) + daysBeforeMonth (getFullYear d) (getMonth d) + getDate d"

definition spec_calendarDayGap :: "JSDate \<Rightarrow> JSDate \<Rightarrow> int" where
  "spec_calendarDayGap lastDate now = dayNumber now - dayNumber lastDate"

section \<open>The shape of the state\<close>

text \<open>The six ids of the page, in the order of the list, and what every state of a
  session satisfies: the habits are these six, each with a series of seven points.\<close>

definition habitIds :: "string list" where
  "habitIds = [''sleep'', ''water'', ''screen'', ''exercise'', ''meditation'', ''coffee'']"

definition wellFormed :: "AppState \<Rightarrow> bool" where
  "wellFormed s =
     (map ident (habits s) = habitIds \<and> list_all (\<lambda>h. length (data h) = 7) (habits s))"

section \<open>Shared facts\<close>

lemma OverallProgress_completedHabits_spec:
  "OverallProgress_completedHabits hs = length (filter spec_achieved hs)"
  unfolding OverallProgress_completedHabits_def
  by (rule arg_cong [where f = length], rule filter_cong) (simp_all add: spec_achieved_def)

lemma Page_completedHabits_spec:
  "Page_completedHabits hs = length (filter spec_achieved hs)"
  unfolding Page_completedHabits_def
  by (rule arg_cong [where f = length], rule filter_cong) (simp_all add: spec_achieved_def)

lemma notify_habits [simp]: "habits (notify msg s) = habits s"
  by (simp add: notify_def)

section \<open>Every state of a session is well formed\<close>

text \<open>The initial state is well formed when \<open>getDates()\<close> gives its seven labels, and
  every event returns (nothing throws) and keeps the state well formed. So the series of a
  habit is never empty and the list of habits never is.\<close>

lemma initialState_wellFormed:
  "length pastWeekDays = 7 \<Longrightarrow> wellFormed (initialState now pastWeekDays)"
  by (simp add: wellFormed_def initialState_def initialHabits_def habitIds_def weekSeries_def)

lemma updateToday_series:
  "data h \<noteq> [] \<Longrightarrow>
   \<exists>h'. updateToday v h = Inr h' \<and> ident h' = ident h \<and> length (data h') = length (data h)"
  by (simp add: updateToday_def)

lemma mapHabits_wellFormed:
  assumes "list_all (\<lambda>h. length (data h) = 7) hs"
  shows "\<exists>hs'. mapHabits (\<lambda>habit. if ident habit = i then updateToday v habit else Inr habit) hs
                  = Inr hs' \<and>
               map ident hs' = map ident hs \<and> list_all (\<lambda>h. length (data h) = 7) hs'"
  using assms
proof (induction hs)
  case Nil
  then show ?case by simp
next
  case (Cons h hs)
  then obtain hs' where hs': "mapHabits (\<lambda>habit. if ident habit = i then updateToday v habit else Inr habit) hs
                  = Inr hs'" "map ident hs' = map ident hs" "list_all (\<lambda>h. length (data h) = 7) hs'"
    by auto
  from Cons.prems have "data h \<noteq> []" by auto
  from updateToday_series [OF this, of v] obtain h' where
    h': "updateToday v h = Inr h'" "ident h' = ident h" "length (data h') = length (data h)"
    by blast
  with hs' Cons.prems show ?case by auto
qed

lemma handleHabitChange_wellFormed:
  assumes "wellFormed s"
  shows "\<exists>s'. handleHabitChange i v s = Inr s' \<and> wellFormed s'"
proof -
  from assms have "list_all (\<lambda>h. length (data h) = 7) (habits s)"
    by (simp add: wellFormed_def)
  from mapHabits_wellFormed [OF this, of i v] obtain hs' where
    "mapHabits (\<lambda>habit. if ident habit = i then updateToday v habit else Inr habit) (habits s)
       = Inr hs'" "map ident hs' = map ident (habits s)"
    "list_all (\<lambda>h. length (data h) = 7) hs'"
    by blast
  with assms show ?thesis
    by (simp add: handleHabitChange_def Let_def wellFormed_def split: option.splits)
qed

lemma updateHabitGoal_wellFormed: "wellFormed s \<Longrightarrow> wellFormed (updateHabitGoal i g s)"
proof -
  let ?f = "\<lambda>habit. if ident habit = i then habit\<lparr>goal := g\<rparr> else habit"
  have a: "map ident (map ?f hs) = map ident hs" for hs by (induction hs) auto
  have b: "list_all (\<lambda>h. length (data h) = 7) (map ?f hs) = list_all (\<lambda>h. length (data h) = 7) hs" for hs
    by (induction hs) auto
  assume "wellFormed s"
  then show ?thesis
    by (simp add: wellFormed_def updateHabitGoal_def notify_def Let_def a b del: map_map list.map_comp)
qed

lemma step_wellFormed:
  assumes "wellFormed s"
  shows "\<exists>s'. step e s = Inr s' \<and> wellFormed s'"
proof (cases e)
  case (HabitChange i v)
  with assms show ?thesis by (simp add: handleHabitChange_wellFormed)
next
  case (GoalUpdate i g)
  with assms show ?thesis by (simp add: updateHabitGoal_wellFormed)
next
  case (CheckIn now)
  with assms show ?thesis by (simp add: wellFormed_def handleCheckIn_def notify_def)
next
  case (NewDayTick now)
  with assms show ?thesis
    by (simp add: wellFormed_def checkNewDay_def notify_def Let_def split: option.splits)
next
  case MissedHabitsTick
  with assms show ?thesis by (simp add: wellFormed_def checkMissedHabits_def Let_def)
next
  case NotificationTimeout
  with assms show ?thesis by (simp add: wellFormed_def clearNotification_def)
next
  case (SetActiveTab t)
  with assms show ?thesis by (simp add: wellFormed_def)
qed

lemma wellFormed_series_nonempty:
  "wellFormed s \<Longrightarrow> \<forall>h \<in> set (habits s). ident h = i \<longrightarrow> data h \<noteq> []"
  by (auto simp: wellFormed_def list_all_iff)

lemma wellFormed_habits_nonempty: "wellFormed s \<Longrightarrow> habits s \<noteq> []"
  by (auto simp: wellFormed_def habitIds_def)

section \<open>Goal achievement\<close>

text \<open>
  C1. Every derivation of the page uses the same goal-achievement predicate: the summary
  badge, the status icon and the count of the overall progress card, the count of the
  progress bar of the page and the slider's target mark hold, for a habit with id
  \<open>screen\<close>, exactly when \<open>current \<le> goal\<close>, and for a habit with any other id
  exactly when \<open>current \<ge> goal\<close>. It holds of every habit record, so of every habit in
  the state.
\<close>

theorem goal_achievement_direction:
  "(ident h = ''screen'' \<longrightarrow>
      (Page_goalMet h \<longleftrightarrow> current h \<le> goal h) \<and>
      (OverallProgress_isComplete h \<longleftrightarrow> current h \<le> goal h) \<and>
      (HabitSlider_isOnTarget h \<longleftrightarrow> current h \<le> goal h)) \<and>
   (ident h \<noteq> ''screen'' \<longrightarrow>
      (Page_goalMet h \<longleftrightarrow> current h \<ge> goal h) \<and>
      (OverallProgress_isComplete h \<longleftrightarrow> current h \<ge> goal h) \<and>
      (HabitSlider_isOnTarget h \<longleftrightarrow> current h \<ge> goal h)) \<and>
   OverallProgress_completedHabits (habits s) = length (filter spec_achieved (habits s)) \<and>
   Page_completedHabits (habits s) = length (filter spec_achieved (habits s))"
  by (simp add: Page_goalMet_def OverallProgress_isComplete_def HabitSlider_isOnTarget_def
      HabitSlider_isReversed_def OverallProgress_completedHabits_spec Page_completedHabits_spec)

theorem goal_achievement_direction_witness:
  "ident (initialHabits someWeek ! 2) = ''screen'' \<and>
   \<not> Page_goalMet (initialHabits someWeek ! 2) \<and>
   \<not> current (initialHabits someWeek ! 2) \<le> goal (initialHabits someWeek ! 2) \<and>
   ident (initialHabits someWeek ! 5) \<noteq> ''screen'' \<and>
   HabitSlider_isOnTarget (initialHabits someWeek ! 5) \<and>
   current (initialHabits someWeek ! 5) \<ge> goal (initialHabits someWeek ! 5) \<and>
   OverallProgress_completedHabits (habits (initialState someDate someWeek)) = 1"
  using goal_achievement_direction [of "initialHabits someWeek ! 2" "initialState someDate someWeek"]
    goal_achievement_direction [of "initialHabits someWeek ! 5" "initialState someDate someWeek"]
  by (simp add: initialHabits_def initialState_def spec_achieved_def)

section \<open>Habit value update\<close>

text \<open>Facts about the updater: it keeps the list's length, applies the function at every
  position, returns when the function returns everywhere and throws when it throws
  somewhere.\<close>

lemma mapHabits_length: "mapHabits f hs = Inr hs' \<Longrightarrow> length hs' = length hs"
  by (induction hs arbitrary: hs') (auto split: sum.splits)

lemma mapHabits_nth:
  "mapHabits f hs = Inr hs' \<Longrightarrow> k < length hs \<Longrightarrow> f (hs ! k) = Inr (hs' ! k)"
proof (induction hs arbitrary: hs' k)
  case Nil
  then show ?case by simp
next
  case (Cons h hs)
  then show ?case
    by (cases k) (auto split: sum.splits)
qed

lemma mapHabits_returns:
  "(\<And>h. h \<in> set hs \<Longrightarrow> \<exists>h'. f h = Inr h') \<Longrightarrow> \<exists>hs'. mapHabits f hs = Inr hs'"
proof (induction hs)
  case Nil
  then show ?case by simp
next
  case (Cons h hs)
  then obtain h' where "f h = Inr h'" by auto
  moreover from Cons obtain hs' where "mapHabits f hs = Inr hs'" by auto
  ultimately show ?case by simp
qed

lemma mapHabits_throws:
  "h \<in> set hs \<Longrightarrow> f h = Inl e \<Longrightarrow> \<exists>e'. mapHabits f hs = Inl e'"
  by (induction hs) (auto split: sum.splits)

lemma handleHabitChange_habits:
  "handleHabitChange i v s = Inr s' \<Longrightarrow>
   mapHabits (\<lambda>habit. if ident habit = i then updateToday v habit else Inr habit) (habits s)
     = Inr (habits s')"
  by (auto simp: handleHabitChange_def Let_def split: option.splits sum.splits if_splits)

lemma handleHabitChange_returns:
  assumes "\<forall>h \<in> set (habits s). ident h = i \<longrightarrow> data h \<noteq> []"
  shows "\<exists>s'. handleHabitChange i v s = Inr s'"
proof -
  let ?f = "\<lambda>habit. if ident habit = i then updateToday v habit else Inr habit"
  have "\<exists>h'. ?f h = Inr h'" if "h \<in> set (habits s)" for h
    using assms that by (simp add: updateToday_def)
  then obtain hs' where "mapHabits ?f (habits s) = Inr hs'"
    using mapHabits_returns [of "habits s" ?f] by blast
  then show ?thesis
    by (simp add: handleHabitChange_def Let_def split: option.splits)
qed

lemma updateToday_Inr:
  "updateToday v h = Inr h' \<Longrightarrow>
     current h' = v \<and> val (last (data h')) = v \<and>
     day (last (data h')) = day (last (data h)) \<and>
     butlast (data h') = butlast (data h) \<and>
     length (data h') = length (data h) \<and>
     h' = h\<lparr>current := current h', data := data h'\<rparr>"
  by (auto simp: updateToday_def split: if_splits)

text \<open>
  C2. Habit value update, for an id whose habits all have a data point for today (the
  series is never empty: it has seven points from the start and the update keeps its
  length): the update returns, and in the new state every habit with that id has
  \<open>current = v\<close>, the last entry of its series carries the value \<open>v\<close> under the
  old day label, the earlier entries and all other fields are as before, and every habit
  with another id is unchanged.
\<close>

theorem handleHabitChange_effect:
  assumes "\<forall>h \<in> set (habits s). ident h = i \<longrightarrow> data h \<noteq> []"
  shows "\<exists>s'. handleHabitChange i v s = Inr s' \<and>
           length (habits s') = length (habits s) \<and>
           (\<forall>k < length (habits s).
              (ident (habits s ! k) = i \<longrightarrow>
                 current (habits s' ! k) = v \<and>
                 val (last (data (habits s' ! k))) = v \<and>
                 day (last (data (habits s' ! k))) = day (last (data (habits s ! k))) \<and>
                 butlast (data (habits s' ! k)) = butlast (data (habits s ! k)) \<and>
                 length (data (habits s' ! k)) = length (data (habits s ! k)) \<and>
                 habits s' ! k = (habits s ! k)\<lparr>current := current (habits s' ! k),
                                                data := data (habits s' ! k)\<rparr>) \<and>
              (ident (habits s ! k) \<noteq> i \<longrightarrow> habits s' ! k = habits s ! k))"
proof -
  let ?f = "\<lambda>habit. if ident habit = i then updateToday v habit else Inr habit"
  obtain s' where s': "handleHabitChange i v s = Inr s'"
    using handleHabitChange_returns [OF assms] by blast
  then have m: "mapHabits ?f (habits s) = Inr (habits s')"
    by (rule handleHabitChange_habits)
  have len: "length (habits s') = length (habits s)"
    using m by (rule mapHabits_length)
  have "(ident (habits s ! k) = i \<longrightarrow>
                 current (habits s' ! k) = v \<and>
                 val (last (data (habits s' ! k))) = v \<and>
                 day (last (data (habits s' ! k))) = day (last (data (habits s ! k))) \<and>
                 butlast (data (habits s' ! k)) = butlast (data (habits s ! k)) \<and>
                 length (data (habits s' ! k)) = length (data (habits s ! k)) \<and>
                 habits s' ! k = (habits s ! k)\<lparr>current := current (habits s' ! k),
                                                data := data (habits s' ! k)\<rparr>) \<and>
              (ident (habits s ! k) \<noteq> i \<longrightarrow> habits s' ! k = habits s ! k)"
    if k: "k < length (habits s)" for k
  proof -
    have fk: "?f (habits s ! k) = Inr (habits s' ! k)"
      using m k by (rule mapHabits_nth)
    show ?thesis
    proof (cases "ident (habits s ! k) = i")
      case True
      with fk have "updateToday v (habits s ! k) = Inr (habits s' ! k)" by simp
      from updateToday_Inr [OF this] True show ?thesis by blast
    next
      case False
      with fk show ?thesis by simp
    qed
  qed
  with s' len show ?thesis by blast
qed


theorem handleHabitChange_effect_witness:
  "(case handleHabitChange ''sleep'' 8.5 (initialState someDate someWeek) of
      Inl e \<Rightarrow> False
    | Inr s' \<Rightarrow>
        current (habits s' ! 0) = 8.5 \<and>
        last (data (habits s' ! 0)) = \<lparr>day = ''Mon'', val = 8.5\<rparr> \<and>
        butlast (data (habits s' ! 0)) = butlast (data (initialHabits someWeek ! 0)) \<and>
        habits s' ! 1 = initialHabits someWeek ! 1)"
  using handleHabitChange_effect [of "initialState someDate someWeek" "''sleep''" "8.5"]
  by (simp add: handleHabitChange_def initialState_def initialHabits_def someWeek_def
      weekSeries_def updateToday_def notify_def)

section \<open>Daily check-in\<close>

text \<open>
  C3. Daily check-in. When \<open>todayComplete\<close> is false it sets \<open>lastCheckin\<close> to the
  current time, sets \<open>todayComplete\<close>, adds exactly 1 to \<open>streak\<close> and shows its
  notification, and a second check-in right after it leaves the streak at the old value
  plus 1. When \<open>todayComplete\<close> is true it returns the state it was given and shows
  nothing.
\<close>

theorem handleCheckIn_effect:
  "(\<not> todayComplete s \<longrightarrow>
      lastCheckin (handleCheckIn now s) = Some now \<and>
      todayComplete (handleCheckIn now s) \<and>
      streak (handleCheckIn now s) = streak s + 1 \<and>
      emits s (handleCheckIn now s) ''Daily check-in complete! Streak increased.'' \<and>
      streak (handleCheckIn now' (handleCheckIn now s)) = streak s + 1) \<and>
   (todayComplete s \<longrightarrow> handleCheckIn now s = s \<and> silent s (handleCheckIn now s))"
  by (simp add: handleCheckIn_def notify_def emits_def silent_def)

theorem handleCheckIn_effect_witness:
  "\<not> todayComplete (initialState someDate someWeek) \<and>
   streak (handleCheckIn someDate (initialState someDate someWeek)) = 4 \<and>
   lastCheckin (handleCheckIn someDate (initialState someDate someWeek)) = Some someDate \<and>
   todayComplete (handleCheckIn someDate (initialState someDate someWeek)) \<and>
   streak (handleCheckIn someDate (handleCheckIn someDate (initialState someDate someWeek))) = 4 \<and>
   handleCheckIn someDate (handleCheckIn someDate (initialState someDate someWeek))
     = handleCheckIn someDate (initialState someDate someWeek)"
  using handleCheckIn_effect [of "initialState someDate someWeek" someDate someDate]
    handleCheckIn_effect [of "handleCheckIn someDate (initialState someDate someWeek)" someDate someDate]
  by (simp add: initialState_def)


text \<open>Until the rollover check runs, no event clears \<open>todayComplete\<close>, so every
  further check-in of the day is the no-op.\<close>

lemma todayComplete_kept:
  assumes "step e s = Inr s'" and "todayComplete s" and "\<forall>now. e \<noteq> NewDayTick now"
  shows "todayComplete s'"
proof (cases e)
  case (HabitChange i v)
  with assms show ?thesis
    by (auto simp: handleHabitChange_def Let_def notify_def split: option.splits sum.splits if_splits)
next
  case (GoalUpdate i g)
  with assms show ?thesis by (auto simp: updateHabitGoal_def notify_def Let_def)
next
  case (CheckIn now)
  with assms show ?thesis by (auto simp: handleCheckIn_def)
next
  case (NewDayTick now)
  with assms show ?thesis by simp
next
  case MissedHabitsTick
  with assms show ?thesis by (auto simp: checkMissedHabits_def Let_def)
next
  case NotificationTimeout
  with assms show ?thesis by (auto simp: clearNotification_def)
next
  case (SetActiveTab t)
  with assms show ?thesis by auto
qed

section \<open>Day rollover\<close>

text \<open>Within one month of one year the gap in calendar days is the difference of the
  days of the month, which is what the code compares.\<close>

lemma sameMonth_gap:
  "getFullYear now = getFullYear lastDate \<Longrightarrow> getMonth now = getMonth lastDate \<Longrightarrow>
   spec_calendarDayGap lastDate now = getDate now - getDate lastDate"
  by (simp add: spec_calendarDayGap_def dayNumber_def)

text \<open>
  C4. Day rollover. When the calendar date of \<open>lastCheckin\<close> differs from today's in
  year, month or day of the month, the check sets \<open>todayComplete\<close> to false; and when
  moreover more than one calendar day has passed since \<open>lastCheckin\<close>, or the month or
  the year differs, it sets \<open>streak\<close> to 0 and shows the streak-reset notification.
  The worked example is a check-in two days earlier in the same month.
\<close>

theorem checkNewDay_rollover:
  assumes "lastCheckin s = Some lastDate"
    and "getFullYear now \<noteq> getFullYear lastDate \<or> getMonth now \<noteq> getMonth lastDate \<or>
         getDate now \<noteq> getDate lastDate"
  shows "todayComplete (checkNewDay now s) = False \<and>
         (spec_calendarDayGap lastDate now > 1 \<or> getMonth now \<noteq> getMonth lastDate \<or>
          getFullYear now \<noteq> getFullYear lastDate \<longrightarrow>
            streak (checkNewDay now s) = 0 \<and>
            emits s (checkNewDay now s) ''You missed a day! Streak reset.'')"
proof -
  let ?missedDay = "getDate now - getDate lastDate > 1 \<or> getMonth now \<noteq> getMonth lastDate \<or>
          getFullYear now \<noteq> getFullYear lastDate"
  have new: "checkNewDay now s =
      (if ?missedDay then notify ''You missed a day! Streak reset.'' (s\<lparr>todayComplete := False, streak := 0\<rparr>)
       else s\<lparr>todayComplete := False\<rparr>)"
    using assms by (simp add: checkNewDay_def Let_def)
  have gap: "?missedDay"
    if "spec_calendarDayGap lastDate now > 1 \<or> getMonth now \<noteq> getMonth lastDate \<or>
          getFullYear now \<noteq> getFullYear lastDate"
    using that sameMonth_gap [of now lastDate] by auto
  have 1: "todayComplete (checkNewDay now s) = False"
    unfolding new by (simp add: notify_def)
  have 2: "streak (checkNewDay now s) = 0 \<and>
            emits s (checkNewDay now s) ''You missed a day! Streak reset.''" if "?missedDay"
    unfolding new using that by (simp add: notify_def emits_def)
  from 1 2 gap show ?thesis by blast
qed


theorem checkNewDay_rollover_witness:
  "lastCheckin (handleCheckIn twoDaysEarlier (initialState twoDaysEarlier someWeek)) = Some twoDaysEarlier \<and>
   spec_calendarDayGap twoDaysEarlier someDate = 2 \<and>
   getMonth someDate = getMonth twoDaysEarlier \<and>
   getFullYear someDate = getFullYear twoDaysEarlier \<and>
   todayComplete (handleCheckIn twoDaysEarlier (initialState twoDaysEarlier someWeek)) \<and>
   streak (handleCheckIn twoDaysEarlier (initialState twoDaysEarlier someWeek)) = 4 \<and>
   todayComplete (checkNewDay someDate (handleCheckIn twoDaysEarlier (initialState twoDaysEarlier someWeek))) = False \<and>
   streak (checkNewDay someDate (handleCheckIn twoDaysEarlier (initialState twoDaysEarlier someWeek))) = 0 \<and>
   notification (checkNewDay someDate (handleCheckIn twoDaysEarlier (initialState twoDaysEarlier someWeek)))
     = Some ''You missed a day! Streak reset.''"
proof -
  let ?s = "handleCheckIn twoDaysEarlier (initialState twoDaysEarlier someWeek)"
  have g: "spec_calendarDayGap twoDaysEarlier someDate = 2"
    by (simp add: sameMonth_gap twoDaysEarlier_def someDate_def)
  have l: "lastCheckin ?s = Some twoDaysEarlier"
    by (simp add: handleCheckIn_def initialState_def notify_def)
  have d: "getFullYear someDate \<noteq> getFullYear twoDaysEarlier \<or>
           getMonth someDate \<noteq> getMonth twoDaysEarlier \<or>
           getDate someDate \<noteq> getDate twoDaysEarlier"
    by (simp add: twoDaysEarlier_def someDate_def)
  from checkNewDay_rollover [OF l d] g
  have "todayComplete (checkNewDay someDate ?s) = False \<and> streak (checkNewDay someDate ?s) = 0 \<and>
        notification (checkNewDay someDate ?s) = Some ''You missed a day! Streak reset.''"
    by (simp add: emits_def)
  moreover have "todayComplete ?s \<and> streak ?s = 4"
    by (simp add: handleCheckIn_def initialState_def notify_def)
  moreover have "getMonth someDate = getMonth twoDaysEarlier \<and>
                 getFullYear someDate = getFullYear twoDaysEarlier"
    by (simp add: twoDaysEarlier_def someDate_def)
  ultimately show ?thesis using g l by simp
qed

section \<open>Missed-habit reminders\<close>

text \<open>The filter of the code selects the habits that fail the direction rule.\<close>

lemma missed_iff_not_achieved:
  "(if ident h = ''screen'' then current h > goal h else current h < goal h) \<longleftrightarrow> \<not> spec_achieved h"
  by (auto simp: spec_achieved_def)

lemma checkMissedHabits_eq:
  "checkMissedHabits s = s\<lparr>reminders := map reminderText (filter (\<lambda>h. \<not> spec_achieved h) (habits s))\<rparr>"
proof -
  have f: "filter (\<lambda>habit. if ident habit = ''screen'' then current habit > goal habit
                            else current habit < goal habit) (habits s)
           = filter (\<lambda>h. \<not> spec_achieved h) (habits s)"
    by (rule filter_cong) (simp_all add: missed_iff_not_achieved)
  show ?thesis
    unfolding checkMissedHabits_def f Let_def by simp
qed

text \<open>
  C5. Missed-habit reminders. After the derivation the reminder list holds, in the order
  of the habits, one message for each habit whose goal is not met (\<open>current > goal\<close>
  for \<open>screen\<close>, \<open>current < goal\<close> otherwise), so as many messages as habits that
  fail the direction rule; the message says \<open>limit\<close> for the screen habit and
  \<open>complete\<close> for the others; and the list is empty exactly when every habit's goal is
  met.
\<close>

theorem checkMissedHabits_reminders:
  "reminders (checkMissedHabits s) =
     map reminderText
       (filter (\<lambda>h. if ident h = ''screen'' then current h > goal h else current h < goal h)
          (habits s)) \<and>
   length (reminders (checkMissedHabits s)) = length (filter (\<lambda>h. \<not> spec_achieved h) (habits s)) \<and>
   reminderText h =
     (if ident h = ''screen'' then ''Don't forget to limit your '' @ toLowerCase (name h) @ '' goal!''
      else ''Don't forget to complete your '' @ toLowerCase (name h) @ '' goal!'') \<and>
   (reminders (checkMissedHabits s) = [] \<longleftrightarrow> (\<forall>h \<in> set (habits s). spec_achieved h))"
proof -
  have 1: "reminders (checkMissedHabits s) =
     map reminderText
       (filter (\<lambda>h. if ident h = ''screen'' then current h > goal h else current h < goal h)
          (habits s))"
    by (simp add: checkMissedHabits_def Let_def)
  have 2: "length (reminders (checkMissedHabits s))
             = length (filter (\<lambda>h. \<not> spec_achieved h) (habits s))"
    by (simp add: checkMissedHabits_eq)
  have 3: "reminderText h =
     (if ident h = ''screen'' then ''Don't forget to limit your '' @ toLowerCase (name h) @ '' goal!''
      else ''Don't forget to complete your '' @ toLowerCase (name h) @ '' goal!'')"
    by (simp add: reminderText_def)
  have 4: "reminders (checkMissedHabits s) = [] \<longleftrightarrow> (\<forall>h \<in> set (habits s). spec_achieved h)"
    by (simp add: checkMissedHabits_eq filter_empty_conv)
  from 1 2 3 4 show ?thesis by blast
qed

lemma toLowerCase_names:
  "toLowerCase ''Sleep'' = ''sleep''" "toLowerCase ''Water'' = ''water''"
  "toLowerCase ''Screen Time'' = ''screen time''" "toLowerCase ''Exercise'' = ''exercise''"
  "toLowerCase ''Meditation'' = ''meditation''" "toLowerCase ''Coffee'' = ''coffee''"
  by code_simp+

theorem checkMissedHabits_reminders_witness:
  "reminders (checkMissedHabits (initialState someDate someWeek)) =
     [''Don't forget to complete your sleep goal!'',
      ''Don't forget to complete your water goal!'',
      ''Don't forget to limit your screen time goal!'',
      ''Don't forget to complete your exercise goal!'',
      ''Don't forget to complete your meditation goal!''] \<and>
   \<not> spec_achieved (initialHabits someWeek ! 2) \<and>
   (case handleHabitChange ''screen'' 3.5 (initialState someDate someWeek) of
      Inl e \<Rightarrow> False
    | Inr s' \<Rightarrow> reminders (checkMissedHabits s') =
        [''Don't forget to complete your sleep goal!'',
         ''Don't forget to complete your water goal!'',
         ''Don't forget to complete your exercise goal!'',
         ''Don't forget to complete your meditation goal!'']) \<and>
   (case handleHabitChange ''screen'' 3.5 screenOnly of
      Inl e \<Rightarrow> False
    | Inr s' \<Rightarrow> reminders (checkMissedHabits s') = [] \<and> spec_achieved (habits s' ! 0))"
  using checkMissedHabits_reminders [of "initialState someDate someWeek" "initialHabits someWeek ! 2"]
  by (simp add: initialState_def initialHabits_def reminderText_def toLowerCase_names
      spec_achieved_def screenOnly_def handleHabitChange_def updateToday_def weekSeries_def
      someWeek_def checkMissedHabits_def notify_def)

section \<open>Goal notification of the habit value update\<close>

text \<open>The handler, once the habit is found and the updater has returned.\<close>

lemma handleHabitChange_found:
  assumes "find (\<lambda>h. ident h = i) (habits s) = Some h"
    and "mapHabits (\<lambda>habit. if ident habit = i then updateToday v habit else Inr habit) (habits s)
           = Inr hs'"
  shows "handleHabitChange i v s =
           Inr ((if \<not> spec_achieved h \<and> spec_achieved (h\<lparr>current := v\<rparr>)
                 then notify (goalAchievedText h) s else s)\<lparr>habits := hs'\<rparr>)"
  using assms by (simp add: handleHabitChange_def Let_def spec_achieved_def)

text \<open>
  C6. Goal notification. For an id the state has a habit for (the first one with that id
  is the one the handler looks at; its series is not empty), the habit value update
  returns, and it shows the goal-achieved notification of that habit exactly when the
  direction rule fails at the old \<open>current\<close> and holds at the new value; when the goal
  was met before, or is still unmet, it shows nothing and schedules nothing. In the
  worked example sleep (goal 8, current 7) is set to 8.5: one notification, and a further
  change to 9 shows none.
\<close>

theorem handleHabitChange_notification:
  assumes "find (\<lambda>h. ident h = i) (habits s) = Some h"
    and "\<forall>h \<in> set (habits s). ident h = i \<longrightarrow> data h \<noteq> []"
  shows "\<exists>s'. handleHabitChange i v s = Inr s' \<and>
           (emits s s' (goalAchievedText h) \<longleftrightarrow>
              \<not> spec_achieved h \<and> spec_achieved (h\<lparr>current := v\<rparr>)) \<and>
           (spec_achieved h \<or> \<not> spec_achieved (h\<lparr>current := v\<rparr>) \<longrightarrow> silent s s')"
proof -
  let ?f = "\<lambda>habit. if ident habit = i then updateToday v habit else Inr habit"
  have "\<exists>h'. ?f h = Inr h'" if "h \<in> set (habits s)" for h
    using assms(2) that by (simp add: updateToday_def)
  then obtain hs' where m: "mapHabits ?f (habits s) = Inr hs'"
    using mapHabits_returns [of "habits s" ?f] by blast
  show ?thesis
    unfolding handleHabitChange_found [OF assms(1) m]
    by (simp add: emits_def silent_def notify_def)
qed

theorem handleHabitChange_notification_witness:
  "find (\<lambda>h. ident h = ''sleep'') (habits (initialState someDate someWeek))
     = Some (initialHabits someWeek ! 0) \<and>
   goal (initialHabits someWeek ! 0) = 8 \<and> current (initialHabits someWeek ! 0) = 7 \<and>
   (case handleHabitChange ''sleep'' 8.5 (initialState someDate someWeek) of
      Inl e \<Rightarrow> False
    | Inr s' \<Rightarrow> notification s' =
        Some (goalAchievedPrefix @ '' Goal achieved for Sleep!'') \<and>
        timeouts s' = 1 \<and>
        (case handleHabitChange ''sleep'' 9 s' of
           Inl e \<Rightarrow> False
         | Inr s'' \<Rightarrow> notification s'' = notification s' \<and> timeouts s'' = 1))"
  using handleHabitChange_notification [of "''sleep''" "initialState someDate someWeek"
      "initialHabits someWeek ! 0" "8.5"]
  by (simp add: initialState_def initialHabits_def handleHabitChange_def notify_def
      goalAchievedText_def updateToday_def weekSeries_def someWeek_def)

section \<open>Overall progress\<close>

lemma OverallProgress_percentage_spec:
  "hs \<noteq> [] \<Longrightarrow> OverallProgress_percentage hs = Some (spec_percentage hs)"
  by (simp add: OverallProgress_percentage_def OverallProgress_completedHabits_spec
      spec_percentage_def Math_round_def round_def mult.commute)

lemma Page_completionPercentage_spec:
  "hs \<noteq> [] \<Longrightarrow> Page_completionPercentage hs = Some (spec_percentage hs)"
  by (simp add: Page_completionPercentage_def Page_completedHabits_spec
      spec_percentage_def Math_round_def round_def mult.commute Let_def)

lemma spec_percentage_flip:
  assumes "\<not> spec_achieved h" and "spec_achieved h'"
  shows "spec_percentage (xs @ h # ys) \<le> spec_percentage (xs @ h' # ys)"
proof -
  let ?c = "length (filter spec_achieved xs) + length (filter spec_achieved ys)"
  let ?n = "length xs + Suc (length ys)"
  have a: "length (filter spec_achieved (xs @ h # ys)) = ?c" using assms by simp
  have b: "length (filter spec_achieved (xs @ h' # ys)) = Suc ?c" using assms by simp
  have "100 * real ?c / real ?n \<le> 100 * real (Suc ?c) / real ?n"
    by (intro divide_right_mono) simp_all
  then have "round (100 * real ?c / real ?n) \<le> round (100 * real (Suc ?c) / real ?n)"
    by (rule round_mono)
  then show ?thesis
    unfolding spec_percentage_def a b by simp
qed

text \<open>
  C7. Aggregate progress. For a list of at least one habit (the page has six; with none
  both the code and the formula divide 0 by 0), the percentage of the overall progress
  card and of the progress bar is \<open>round(100 \<times> completed / total)\<close>, where
  \<open>completed\<close> counts the habits that meet the direction rule; and replacing one habit
  that does not meet its goal by one that does, the others fixed, never lowers the
  percentage. The arithmetic is exact; for the six habits of the page the doubles of the
  code round to the same integers (17, 33, 50, 67, 83, 100).
\<close>

theorem percentage_round_monotone:
  "(hs \<noteq> [] \<longrightarrow>
      OverallProgress_percentage hs = Some (spec_percentage hs) \<and>
      Page_completionPercentage hs = Some (spec_percentage hs)) \<and>
   (\<not> spec_achieved h \<and> spec_achieved h' \<longrightarrow>
      (\<exists>p p'. OverallProgress_percentage (xs @ h # ys) = Some p \<and>
               OverallProgress_percentage (xs @ h' # ys) = Some p' \<and>
               Page_completionPercentage (xs @ h # ys) = Some p \<and>
               Page_completionPercentage (xs @ h' # ys) = Some p' \<and> p \<le> p'))"
  using spec_percentage_flip [of h h' xs ys]
  by (simp add: OverallProgress_percentage_spec Page_completionPercentage_spec)

theorem percentage_round_monotone_witness:
  "initialHabits someWeek \<noteq> [] \<and>
   OverallProgress_percentage (initialHabits someWeek) = Some 17 \<and>
   Page_completionPercentage (initialHabits someWeek) = Some 17 \<and>
   \<not> spec_achieved (hd (initialHabits someWeek)) \<and>
   spec_achieved ((hd (initialHabits someWeek))\<lparr>current := 8.5\<rparr>) \<and>
   OverallProgress_percentage
     ((hd (initialHabits someWeek))\<lparr>current := 8.5\<rparr> # tl (initialHabits someWeek)) = Some 33"
  using percentage_round_monotone [of "initialHabits someWeek" "hd (initialHabits someWeek)"
      "(hd (initialHabits someWeek))\<lparr>current := 8.5\<rparr>" "[]" "tl (initialHabits someWeek)"]
  by (simp add: initialHabits_def spec_achieved_def spec_percentage_def round_def
      OverallProgress_percentage_def OverallProgress_completedHabits_def
      Page_completionPercentage_def Page_completedHabits_def Math_round_def)

section \<open>What changes the streak\<close>

lemma handleHabitChange_streak: "handleHabitChange i v s = Inr s' \<Longrightarrow> streak s' = streak s"
  by (auto simp: handleHabitChange_def Let_def notify_def split: option.splits sum.splits if_splits)

lemma updateHabitGoal_streak: "streak (updateHabitGoal i g s) = streak s"
  by (simp add: updateHabitGoal_def notify_def Let_def)

lemma handleCheckIn_streak: "streak s \<le> streak (handleCheckIn now s)"
  by (simp add: handleCheckIn_def notify_def)

lemma checkNewDay_streak:
  "streak (checkNewDay now s) = streak s \<or>
   streak (checkNewDay now s) = 0 \<and>
   (\<exists>lastDate. lastCheckin s = Some lastDate \<and>
      (getDate now - getDate lastDate > 1 \<or> getMonth now \<noteq> getMonth lastDate \<or>
       getFullYear now \<noteq> getFullYear lastDate))"
  by (simp add: checkNewDay_def Let_def notify_def split: option.splits)

text \<open>
  C8. Streak resets. Whatever the event, if the streak is lower after it than before,
  then it is 0 and the event was the day-rollover check taking its missed-day branch;
  check-in never lowers the streak, and habit value updates and goal updates leave it as
  it is.
\<close>

theorem streak_reset_only_by_missed_day:
  "(step e s = Inr s' \<and> streak s' < streak s \<longrightarrow>
      streak s' = 0 \<and>
      (\<exists>now lastDate. e = NewDayTick now \<and> lastCheckin s = Some lastDate \<and>
         (getDate now - getDate lastDate > 1 \<or> getMonth now \<noteq> getMonth lastDate \<or>
          getFullYear now \<noteq> getFullYear lastDate))) \<and>
   streak s \<le> streak (handleCheckIn t s) \<and>
   (handleHabitChange i v s = Inr s'' \<longrightarrow> streak s'' = streak s) \<and>
   streak (updateHabitGoal i g s) = streak s"
proof -
  have "streak s' = 0 \<and>
      (\<exists>now lastDate. e = NewDayTick now \<and> lastCheckin s = Some lastDate \<and>
         (getDate now - getDate lastDate > 1 \<or> getMonth now \<noteq> getMonth lastDate \<or>
          getFullYear now \<noteq> getFullYear lastDate))"
    if st: "step e s = Inr s'" and lt: "streak s' < streak s"
  proof (cases e)
    case (HabitChange j w)
    with st have "streak s' = streak s" by (simp add: handleHabitChange_streak)
    with lt show ?thesis by simp
  next
    case (GoalUpdate j w)
    with st have "streak s' = streak s" by (auto simp: updateHabitGoal_streak)
    with lt show ?thesis by simp
  next
    case (CheckIn now)
    with st have "streak s \<le> streak s'" by (auto simp: handleCheckIn_streak)
    with lt show ?thesis by simp
  next
    case (NewDayTick now)
    with st have "s' = checkNewDay now s" by simp
    with lt checkNewDay_streak [of now s] NewDayTick show ?thesis by auto
  next
    case MissedHabitsTick
    with st have "streak s' = streak s" by (auto simp: checkMissedHabits_def Let_def)
    with lt show ?thesis by simp
  next
    case NotificationTimeout
    with st have "streak s' = streak s" by (auto simp: clearNotification_def)
    with lt show ?thesis by simp
  next
    case (SetActiveTab x)
    with st have "streak s' = streak s" by auto
    with lt show ?thesis by simp
  qed
  then show ?thesis
    using handleCheckIn_streak [of s t] handleHabitChange_streak [of i v s s'']
      updateHabitGoal_streak [of i g s]
    by blast
qed

theorem streak_reset_only_by_missed_day_witness:
  "step (NewDayTick someDate) (handleCheckIn twoDaysEarlier (initialState twoDaysEarlier someWeek))
     = Inr (checkNewDay someDate (handleCheckIn twoDaysEarlier (initialState twoDaysEarlier someWeek))) \<and>
   streak (handleCheckIn twoDaysEarlier (initialState twoDaysEarlier someWeek)) = 4 \<and>
   streak (checkNewDay someDate (handleCheckIn twoDaysEarlier (initialState twoDaysEarlier someWeek))) = 0 \<and>
   getDate someDate - getDate twoDaysEarlier = 2 \<and>
   (case handleHabitChange ''sleep'' 8.5 (handleCheckIn twoDaysEarlier (initialState twoDaysEarlier someWeek)) of
      Inl e \<Rightarrow> False | Inr s'' \<Rightarrow> streak s'' = 4) \<and>
   streak (updateHabitGoal ''sleep'' 6 (handleCheckIn twoDaysEarlier (initialState twoDaysEarlier someWeek))) = 4"
  using streak_reset_only_by_missed_day
    [of "NewDayTick someDate" "handleCheckIn twoDaysEarlier (initialState twoDaysEarlier someWeek)"
        "checkNewDay someDate (handleCheckIn twoDaysEarlier (initialState twoDaysEarlier someWeek))"
        twoDaysEarlier "''sleep''" "8.5"]
  by (simp add: handleCheckIn_def initialState_def initialHabits_def notify_def checkNewDay_def
      twoDaysEarlier_def someDate_def handleHabitChange_def updateToday_def weekSeries_def
      someWeek_def updateHabitGoal_def)

section \<open>Goal update\<close>

text \<open>The texts of the other notifications differ from the goal-achieved text, and every
  event but the habit value update either shows one of them or schedules nothing.\<close>

lemma goalAchievedText_not_updated: "''Goal updated for '' @ n \<noteq> goalAchievedText h"
  by (simp add: goalAchievedText_def goalAchievedPrefix_def)

lemma step_notification_kinds:
  assumes "step e s = Inr s'" and "\<forall>j v. e \<noteq> HabitChange j v"
  shows "timeouts s' \<le> timeouts s \<or>
         (\<exists>n. notification s' = Some (''Goal updated for '' @ n)) \<or>
         notification s' = Some ''Daily check-in complete! Streak increased.'' \<or>
         notification s' = Some ''You missed a day! Streak reset.''"
proof (cases e)
  case (HabitChange j v)
  with assms(2) show ?thesis by simp
next
  case (GoalUpdate j g)
  with assms(1) have "s' = updateHabitGoal j g s" by simp
  then show ?thesis by (simp add: updateHabitGoal_def notify_def Let_def)
next
  case (CheckIn now)
  with assms(1) have "s' = handleCheckIn now s" by simp
  then show ?thesis by (simp add: handleCheckIn_def notify_def)
next
  case (NewDayTick now)
  with assms(1) have "s' = checkNewDay now s" by simp
  then show ?thesis by (simp add: checkNewDay_def notify_def Let_def split: option.splits)
next
  case MissedHabitsTick
  with assms(1) have "s' = checkMissedHabits s" by simp
  then show ?thesis by (simp add: checkMissedHabits_def Let_def)
next
  case NotificationTimeout
  with assms(1) have "s' = (if timeouts s = 0 then s else clearNotification s)" by simp
  then show ?thesis by (simp add: clearNotification_def)
next
  case (SetActiveTab t)
  with assms(1) have "s' = s\<lparr>activeTab := t\<rparr>" by simp
  then show ?thesis by simp
qed

lemma goalAchieved_only_from_HabitChange:
  assumes "step e s = Inr s'" and "emits s s' (goalAchievedText h')"
  shows "\<exists>j v. e = HabitChange j v"
proof (rule ccontr)
  assume "\<nexists>j v. e = HabitChange j v"
  then have "\<forall>j v. e \<noteq> HabitChange j v" by simp
  from step_notification_kinds [OF assms(1) this] assms(2) show False
    by (auto simp: emits_def goalAchievedText_def goalAchievedPrefix_def)
qed

text \<open>
  C10. Goal update. For an id the state has a habit for, the goal update shows the
  notification \<open>Goal updated for <name>\<close> and no goal-achieved notification of any
  habit, also when the new goal makes the direction rule flip to met (the worked example
  lowers the sleep goal from 8 to 6 at \<open>current = 7\<close>); and an event that shows a
  goal-achieved notification is a habit value update.
\<close>

theorem updateHabitGoal_notification:
  assumes "find (\<lambda>h. ident h = i) (habits s) = Some h"
  shows "emits s (updateHabitGoal i g s) (''Goal updated for '' @ name h) \<and>
         (\<forall>h'. \<not> emits s (updateHabitGoal i g s) (goalAchievedText h')) \<and>
         (\<forall>e s' h'. step e s = Inr s' \<and> emits s s' (goalAchievedText h') \<longrightarrow>
                     (\<exists>j v. e = HabitChange j v))"
proof -
  have 1: "emits s (updateHabitGoal i g s) (''Goal updated for '' @ name h)"
    using assms by (simp add: updateHabitGoal_def emits_def notify_def)
  have 2: "\<not> emits s (updateHabitGoal i g s) (goalAchievedText h')" for h'
    using 1 goalAchievedText_not_updated [of "name h" h'] by (auto simp: emits_def)
  from 1 2 goalAchieved_only_from_HabitChange show ?thesis by blast
qed

theorem updateHabitGoal_notification_witness:
  "find (\<lambda>h. ident h = ''sleep'') (habits (initialState someDate someWeek))
     = Some (initialHabits someWeek ! 0) \<and>
   \<not> spec_achieved (habits (initialState someDate someWeek) ! 0) \<and>
   spec_achieved (habits (updateHabitGoal ''sleep'' 6 (initialState someDate someWeek)) ! 0) \<and>
   notification (updateHabitGoal ''sleep'' 6 (initialState someDate someWeek))
     = Some ''Goal updated for Sleep'' \<and>
   timeouts (updateHabitGoal ''sleep'' 6 (initialState someDate someWeek)) = 1"
  using updateHabitGoal_notification [of "''sleep''" "initialState someDate someWeek"
      "initialHabits someWeek ! 0" 6]
  by (simp add: initialState_def initialHabits_def updateHabitGoal_def notify_def
      spec_achieved_def emits_def)

section \<open>Ids the state has no habit for\<close>





lemma wellFormed_ids: "wellFormed s \<Longrightarrow> ident ` set (habits s) = set habitIds"
proof -
  assume "wellFormed s"
  then have "map ident (habits s) = habitIds" by (simp add: wellFormed_def)
  then have "set (map ident (habits s)) = set habitIds" by simp
  then show ?thesis by simp
qed




end
